theory Spec2Isabelle
  imports Complex_Main
begin

section \<open>Data model (the Mongoose schemas of app.js)\<close>

text \<open>
  Documents carry a MongoDB \<open>_id\<close>; ObjectIds are natural numbers here. A \<open>Date\<close> is
  its number of milliseconds since the epoch; a stored date is a valid one. Stored room
  counts are integers. Prices, amounts, ratings and averages are numbers, here
  rationals; the rounding of double-precision arithmetic is a parameter \<open>fl\<close> of the
  handlers that compute with them (see below). Fields that no modelled handler reads
  (hotel name, image, description, amenities, author username, currency) are left out.
\<close>

type_synonym objectId = nat
type_synonym date = int

datatype bookingStatus = Pending | Confirmed | Cancelled
  \<comment> \<open>bookingSchema.status: enum ['pending', 'confirmed', 'cancelled']\<close>

datatype bookingPaymentStatus = PaymentPending | Completed | PaymentFailed
  \<comment> \<open>bookingSchema.paymentStatus: enum ['pending', 'completed', 'failed']\<close>

datatype paymentStatusT = AttemptPending | Succeeded | AttemptFailed
  \<comment> \<open>paymentSchema.status: enum ['pending', 'succeeded', 'failed']\<close>

record user =
  u_id :: objectId
  username :: string
  isAdmin :: bool

record review =
  r_id :: objectId
  text_of :: string
  rating :: rat
  r_author :: objectId

record hotel =
  h_id :: objectId
  price :: rat
  totalRooms :: int
  averageRating :: rat
  h_author :: objectId
  h_reviews :: "objectId list"

record booking =
  b_id :: objectId
  b_hotel :: objectId
  b_user :: objectId
  checkInDate :: date
  checkOutDate :: date
  numberOfRooms :: int
  totalPrice :: rat
  b_status :: bookingStatus
  paymentStatus :: bookingPaymentStatus
  b_paymentIntentId :: "string option"
  b_createdAt :: date

record payment =
  p_id :: objectId
  p_booking :: objectId
  p_user :: objectId
  amount :: rat
  p_paymentIntentId :: string
  p_status :: paymentStatusT
  p_createdAt :: date

text \<open>The database: one list of documents per collection, in natural (insertion) order.\<close>

record db =
  users :: "user list"
  hotels :: "hotel list"
  reviews :: "review list"
  bookings :: "booking list"
  payments :: "payment list"

text \<open>What a handler answers. The templated answers have constructors of their own.\<close>

datatype response =
    Redirect string
  | Send string
  | SendStatus nat string
  | Json string
  | OnlyRoomsAvailable int
      \<comment> \<open>res.send(`Only ${availableRooms} rooms available for these dates`)\<close>
  | RedirectPayment objectId
      \<comment> \<open>res.redirect(`/bookings/${booking._id}/payment`)\<close>
  | RedirectHotel objectId
      \<comment> \<open>res.redirect('/hotels/' + id)\<close>
  | ClientSecret string
      \<comment> \<open>res.json({ clientSecret: paymentIntent.client_secret })\<close>
  | Unhandled
      \<comment> \<open>an exception escapes an async handler without try/catch: no answer is sent\<close>

section \<open>Collection primitives\<close>

text \<open>
  \<open>Model.findById\<close> and \<open>Model.findOne\<close> return the first matching document
  (\<^const>\<open>find\<close>); \<open>findByIdAndUpdate\<close>, \<open>findOneAndUpdate\<close> and \<open>doc.save()\<close>
  change the first matching document only and do nothing when none matches.
\<close>

fun updateFirst :: "('a \<Rightarrow> bool) \<Rightarrow> ('a \<Rightarrow> 'a) \<Rightarrow> 'a list \<Rightarrow> 'a list" where
  "updateFirst P f [] = []"
| "updateFirst P f (x # xs) = (if P x then f x # xs else x # updateFirst P f xs)"

definition dayMs :: int where
  "dayMs = 1000 * 60 * 60 * 24"

section \<open>Numbers and dates of a request\<close>

text \<open>
  JavaScript computes with doubles: the result of \<open>+\<close>, \<open>-\<close>, \<open>*\<close> and \<open>/\<close> is the exact
  result rounded to the nearest double. The rounding is the parameter \<open>fl\<close> of the
  handlers below (results beyond the range of the doubles are not modelled); with
  \<open>fl x = x\<close> the arithmetic is exact.

  A value of the request that the code uses as a number is one of the following;
  \<open>numberOfRooms\<close> is used twice, through its numeric coercion (by \<open>>\<close> and \<open>*\<close>) and
  through \<open>parseInt\<close> (for the stored count), and the two need not agree:
  \<open>'1e1'\<close> is the number 10 and \<open>parseInt\<close> gives 1, \<open>'2.5'\<close> is 2.5 and 2, \<open>'abc'\<close> is
  NaN twice. \<open>asInt\<close> is \<open>None\<close> when \<open>parseInt\<close> gives no finite integer.
\<close>

datatype jsNumber = NaN | MinusInfinity | Finite rat | PlusInfinity

record roomsField =
  asNumber :: jsNumber
  asInt :: "int option"

fun jsGreater :: "jsNumber \<Rightarrow> int \<Rightarrow> bool" where
  "jsGreater (Finite r) a = (r > of_int a)"
| "jsGreater PlusInfinity a = True"
| "jsGreater MinusInfinity a = False"
| "jsGreater NaN a = False"

text \<open>
  \<open>new Date(text)\<close> is a date or the invalid date (\<open>None\<close>), and a comparison with the
  invalid date is false.
\<close>

fun dateLess :: "date option \<Rightarrow> date option \<Rightarrow> bool" where
  "dateLess (Some a) (Some b) = (a < b)"
| "dateLess a b = False"

fun dateLessEq :: "date option \<Rightarrow> date option \<Rightarrow> bool" where
  "dateLessEq (Some a) (Some b) = (a \<le> b)"
| "dateLessEq a b = False"

section \<open>Booking: availability, validation and pricing (POST /hotels/:id/book)\<close>

definition existingBookings :: "db \<Rightarrow> objectId \<Rightarrow> date \<Rightarrow> date \<Rightarrow> booking list" where
  "existingBookings d hotelId checkIn checkOut =
     filter (\<lambda>b. b_hotel b = hotelId \<and> b_status b = Confirmed \<and>
                  (checkInDate b \<le> checkOut \<and> checkOutDate b \<ge> checkIn))
            (bookings d)"

definition bookedRooms :: "db \<Rightarrow> objectId \<Rightarrow> date \<Rightarrow> date \<Rightarrow> int" where
  "bookedRooms d hotelId checkIn checkOut =
     foldl (\<lambda>sum booking. sum + numberOfRooms booking) 0
           (existingBookings d hotelId checkIn checkOut)"

definition availableRooms :: "db \<Rightarrow> hotel \<Rightarrow> objectId \<Rightarrow> date \<Rightarrow> date \<Rightarrow> int" where
  "availableRooms d hotel hotelId checkIn checkOut =
     totalRooms hotel - bookedRooms d hotelId checkIn checkOut"

definition nights :: "(rat \<Rightarrow> rat) \<Rightarrow> date \<Rightarrow> date \<Rightarrow> int" where
  \<comment> \<open>Math.ceil((checkOut - checkIn) / (1000 * 60 * 60 * 24))\<close>
  "nights fl checkIn checkOut = \<lceil>fl (fl (of_int (checkOut - checkIn)) / of_int dayMs)\<rceil>"

text \<open>
  The handler. \<open>session\<close> is \<open>req.session.userId\<close>, \<open>today\<close> the value of
  \<open>new Date()\<close>, \<open>newId\<close> the ObjectId that \<open>Booking.create\<close> generates. An exception
  inside the \<open>try\<close> is caught and answered with "Booking failed": a missing user or
  hotel; an invalid date that passed the comparisons, which \<open>Booking.find\<close> cannot cast;
  a \<open>totalPrice\<close> that is NaN; a \<open>numberOfRooms\<close> that is NaN or below the schema's
  \<open>min: 1\<close>. A text whose number is \<open>-Infinity\<close> has a \<open>parseInt\<close> below 1 or NaN, and
  ends there too.
\<close>

definition book_post ::
  "(rat \<Rightarrow> rat) \<Rightarrow> db \<Rightarrow> objectId option \<Rightarrow> objectId \<Rightarrow> date option \<Rightarrow> date option
     \<Rightarrow> roomsField \<Rightarrow> date \<Rightarrow> objectId \<Rightarrow> response \<times> db" where
  "book_post fl d session hotelId checkIn checkOut rooms today newId =
     (case session of
        None \<Rightarrow> (Redirect ''/login'', d)
      | Some userId \<Rightarrow>
          (case find (\<lambda>u. u_id u = userId) (users d) of
             None \<Rightarrow> (Send ''Booking failed'', d)
           | Some user \<Rightarrow>
               if isAdmin user then (Send ''Admins cannot book hotels'', d)
               else if dateLess checkIn (Some today) \<or> dateLessEq checkOut checkIn
                 then (Send ''Invalid dates'', d)
               else
                 (case checkIn of
                    None \<Rightarrow> (Send ''Booking failed'', d)
                  | Some ci \<Rightarrow>
                 (case checkOut of
                    None \<Rightarrow> (Send ''Booking failed'', d)
                  | Some co \<Rightarrow>
                 (case find (\<lambda>h. h_id h = hotelId) (hotels d) of
                    None \<Rightarrow> (Send ''Booking failed'', d)
                  | Some hotel \<Rightarrow>
                      let available = availableRooms d hotel hotelId ci co in
                      if jsGreater (asNumber rooms) available
                        then (OnlyRoomsAvailable available, d)
                      else
                        (case asNumber rooms of
                           Finite r \<Rightarrow>
                             let n = nights fl ci co;
                                 total = fl (fl (price hotel * r) * of_int n)
                             in (case asInt rooms of
                                   None \<Rightarrow> (Send ''Booking failed'', d)
                                 | Some k \<Rightarrow>
                                     if k < 1 then (Send ''Booking failed'', d)
                                     else
                                       (RedirectPayment newId,
                                        d\<lparr>bookings := bookings d @
                                           [\<lparr>b_id = newId, b_hotel = hotelId,
                                             b_user = u_id user,
                                             checkInDate = ci, checkOutDate = co,
                                             numberOfRooms = k, totalPrice = total,
                                             b_status = Pending,
                                             paymentStatus = PaymentPending,
                                             b_paymentIntentId = None,
                                             b_createdAt = today\<rparr>]\<rparr>))
                         | NaN \<Rightarrow> (Send ''Booking failed'', d)
                         | MinusInfinity \<Rightarrow> (Send ''Booking failed'', d)
                         | PlusInfinity \<Rightarrow> (Send ''Booking failed'', d)))))))"

section \<open>Cancellation (POST /bookings/:id/cancel)\<close>

text \<open>
  \<open>oneWeekFromNow.setDate(oneWeekFromNow.getDate() + 7)\<close> works on the local time: the
  time value is moved to local time with the zone's offset at that instant
  (\<open>tzaOfUTC\<close>, ECMAScript's \<open>LocalTZA(t, true)\<close>), seven days are added to the day of
  the month, and the result is moved back with the offset that belongs to that local
  time (\<open>tzaOfLocal\<close>, \<open>LocalTZA(t, false)\<close>). The server's time zone is a parameter.
  \<open>booking.save()\<close> writes the one modified path, \<open>status\<close>.
\<close>

record timeZone =
  tzaOfUTC :: "date \<Rightarrow> int"
  tzaOfLocal :: "date \<Rightarrow> int"

definition plusSevenDays :: "timeZone \<Rightarrow> date \<Rightarrow> date" where
  "plusSevenDays tz now =
     (let local = now + tzaOfUTC tz now;
          moved = local + 7 * dayMs
      in moved - tzaOfLocal tz moved)"

definition cancel_post ::
  "timeZone \<Rightarrow> db \<Rightarrow> objectId option \<Rightarrow> objectId \<Rightarrow> date \<Rightarrow> response \<times> db" where
  "cancel_post tz d session bookingId now =
     (case session of
        None \<Rightarrow> (Redirect ''/login'', d)
      | Some userId \<Rightarrow>
          (case find (\<lambda>b. b_id b = bookingId) (bookings d) of
             None \<Rightarrow> (Redirect ''/my-bookings'', d)
           | Some booking \<Rightarrow>
               if b_user booking \<noteq> userId then (Redirect ''/my-bookings'', d)
               else if b_status booking = Cancelled
                 then (Send ''Booking is already cancelled'', d)
               else
                 let oneWeekFromNow = plusSevenDays tz now in
                 if checkInDate booking \<le> oneWeekFromNow
                   then (Send ''Cannot cancel booking within 1 week of check-in date'', d)
                 else
                   (Redirect ''/my-bookings'',
                    d\<lparr>bookings := updateFirst (\<lambda>b. b_id b = bookingId)
                                     (\<lambda>b. b\<lparr>b_status := Cancelled\<rparr>) (bookings d)\<rparr>)))"

section \<open>Payment (POST /bookings/:id/payment, POST /webhook/stripe, GET /payment-success)\<close>

text \<open>
  The payment processor is outside the program. \<open>stripe.paymentIntents.create\<close> answers
  with an error message or with the new intent's id and client secret (\<open>created\<close>), and
  \<open>Payment.create\<close> draws the ObjectId \<open>newId\<close>. The booking is loaded with
  \<open>populate('hotel user')\<close>: when the owner's user document is missing, \<open>booking.user\<close>
  is null, reading \<open>booking.user._id\<close> throws, and the \<open>catch\<close> answers 500.
\<close>

definition nullMessage :: string where
  "nullMessage = ''Cannot read properties of null''"

definition payment_post ::
  "db \<Rightarrow> objectId option \<Rightarrow> objectId \<Rightarrow> string + (string \<times> string) \<Rightarrow> objectId \<Rightarrow> date
     \<Rightarrow> response \<times> db" where
  "payment_post d session bookingId created newId now =
     (case session of
        None \<Rightarrow> (Redirect ''/login'', d)
      | Some userId \<Rightarrow>
          (case find (\<lambda>b. b_id b = bookingId) (bookings d) of
             None \<Rightarrow> (SendStatus 404 ''Booking not found'', d)
           | Some booking \<Rightarrow>
               (case find (\<lambda>u. u_id u = b_user booking) (users d) of
                  None \<Rightarrow> (SendStatus 500 (''Payment processing failed: '' @ nullMessage), d)
                | Some owner \<Rightarrow>
                    if u_id owner \<noteq> userId then (SendStatus 403 ''Unauthorized'', d)
                    else
                      (case created of
                         Inl message \<Rightarrow>
                           (SendStatus 500 (''Payment processing failed: '' @ message), d)
                       | Inr (intentId, clientSecret) \<Rightarrow>
                           let d1 = d\<lparr>bookings := updateFirst (\<lambda>b. b_id b = bookingId)
                                         (\<lambda>b. b\<lparr>b_paymentIntentId := Some intentId\<rparr>)
                                         (bookings d)\<rparr>;
                               d2 = d1\<lparr>payments := payments d1 @
                                         [\<lparr>p_id = newId, p_booking = b_id booking,
                                           p_user = u_id owner, amount = totalPrice booking,
                                           p_paymentIntentId = intentId,
                                           p_status = AttemptPending, p_createdAt = now\<rparr>]\<rparr>
                           in (ClientSecret clientSecret, d2)))))"

text \<open>
  A verified webhook event: \<open>event.type\<close>, \<open>event.data.object.id\<close> and
  \<open>event.data.object.metadata.bookingId\<close>. \<open>stripe.webhooks.constructEvent\<close> is a
  parameter of the handler: it returns the event, or throws with a message (\<open>Inl\<close>).
\<close>

record event =
  ev_type :: string
  intent_id :: string
  metadata_bookingId :: objectId

definition webhook_stripe ::
  "('p \<Rightarrow> 's \<Rightarrow> string \<Rightarrow> string + event) \<Rightarrow> string \<Rightarrow> db \<Rightarrow> 'p \<Rightarrow> 's \<Rightarrow> response \<times> db" where
  "webhook_stripe constructEvent webhookSecret d body sig =
     (case constructEvent body sig webhookSecret of
        Inl message \<Rightarrow> (SendStatus 400 (''Webhook Error: '' @ message), d)
      | Inr ev \<Rightarrow>
          if ev_type ev = ''payment_intent.succeeded'' then
            let bookingId = metadata_bookingId ev;
                d1 = d\<lparr>bookings := updateFirst (\<lambda>b. b_id b = bookingId)
                          (\<lambda>b. b\<lparr>b_status := Confirmed, paymentStatus := Completed\<rparr>)
                          (bookings d)\<rparr>;
                d2 = d1\<lparr>payments := updateFirst (\<lambda>p. p_paymentIntentId p = intent_id ev)
                          (\<lambda>p. p\<lparr>p_status := Succeeded\<rparr>) (payments d1)\<rparr>
            in (Json ''{received: true}'', d2)
          else (Json ''{received: true}'', d))"

text \<open>\<open>booking_id\<close> is \<open>req.query.booking_id\<close>, absent or an id.\<close>

definition payment_success :: "db \<Rightarrow> objectId option \<Rightarrow> objectId option \<Rightarrow> response \<times> db" where
  "payment_success d session booking_id =
     (case session of
        None \<Rightarrow> (Redirect ''/login'', d)
      | Some userId \<Rightarrow>
          (case booking_id of
             None \<Rightarrow> (Redirect ''/my-bookings'', d)
           | Some bookingId \<Rightarrow>
               (case find (\<lambda>b. b_id b = bookingId) (bookings d) of
                  None \<Rightarrow> (Redirect ''/my-bookings'', d)
                | Some booking \<Rightarrow>
                    if b_user booking \<noteq> userId then (Redirect ''/my-bookings'', d)
                    else
                      let d1 = d\<lparr>bookings := updateFirst (\<lambda>b. b_id b = bookingId)
                                    (\<lambda>b. b\<lparr>b_status := Confirmed, paymentStatus := Completed\<rparr>)
                                    (bookings d)\<rparr>;
                          d2 = d1\<lparr>payments := updateFirst (\<lambda>p. p_booking p = bookingId)
                                    (\<lambda>p. p\<lparr>p_status := Succeeded\<rparr>) (payments d1)\<rparr>
                      in (Redirect ''/my-bookings?payment=success'', d2))))"

text \<open>
  The route as the application serves it. \<open>app.use(bodyParser.json())\<close> (with
  \<open>bodyParser.urlencoded\<close> before it) is registered for every route and runs before the
  route's own \<open>express.raw\<close>: a body of type \<open>application/json\<close> that does not parse is
  answered 400 by the parser, one that parses reaches the handler as the parsed object,
  and \<open>express.raw\<close> leaves a parsed body alone; a body of another type reaches the
  handler as an object too (the parsed form, or \<open>{}\<close>). So \<open>req.body\<close> is never the raw
  bytes. Stripe's \<open>constructEvent\<close> checks the signature against the raw text of the
  payload: from the raw bytes it answers what the check of signature and secret
  (\<open>verify\<close>) answers, and on a parsed object it throws.
\<close>

datatype reqBody = Buffer string | Parsed string

definition stripe_constructEvent ::
  "(string \<Rightarrow> string \<Rightarrow> string \<Rightarrow> string + event) \<Rightarrow> reqBody \<Rightarrow> string \<Rightarrow> string
     \<Rightarrow> string + event" where
  "stripe_constructEvent verify payload header secret =
     (case payload of
        Buffer raw \<Rightarrow> verify raw header secret
      | Parsed object \<Rightarrow>
          Inl ''No signatures found matching the expected signature for payload'')"

definition webhook_route ::
  "(string \<Rightarrow> bool) \<Rightarrow> (string \<Rightarrow> string \<Rightarrow> string \<Rightarrow> string + event) \<Rightarrow> string \<Rightarrow> db
     \<Rightarrow> string \<Rightarrow> string \<Rightarrow> string \<Rightarrow> response \<times> db" where
  "webhook_route parses verify webhookSecret d contentType raw sig =
     (if contentType = ''application/json'' then
        (if parses raw
           then webhook_stripe (stripe_constructEvent verify) webhookSecret d (Parsed raw) sig
         else (SendStatus 400 ''Bad Request'', d))
      else webhook_stripe (stripe_constructEvent verify) webhookSecret d (Parsed raw) sig)"

section \<open>Reviews and the average rating\<close>

text \<open>
  \<open>populate('reviews')\<close> replaces the ids of \<open>hotel.reviews\<close> by their documents and
  drops the ids that have none.
\<close>

definition populate :: "objectId list \<Rightarrow> review list \<Rightarrow> review list" where
  "populate ids rs = List.map_filter (\<lambda>i. find (\<lambda>r. r_id r = i) rs) ids"

fun deleteFirst :: "('a \<Rightarrow> bool) \<Rightarrow> 'a list \<Rightarrow> 'a list" where
  "deleteFirst P [] = []"
| "deleteFirst P (x # xs) = (if P x then xs else x # deleteFirst P xs)"

text \<open>
  \<open>recalculateHotelRating\<close>; the create handler repeats its body inline. For a hotel
  that does not exist the function throws and nothing is written.
\<close>

definition recalculateHotelRating :: "(rat \<Rightarrow> rat) \<Rightarrow> db \<Rightarrow> objectId \<Rightarrow> db" where
  "recalculateHotelRating fl d hotelId =
     (case find (\<lambda>h. h_id h = hotelId) (hotels d) of
        None \<Rightarrow> d
      | Some hotel \<Rightarrow>
          let rs = populate (h_reviews hotel) (reviews d);
              sum = foldl (\<lambda>acc next. fl (acc + rating next)) 0 rs;
              average = (if length rs > 0 then fl (sum / of_nat (length rs)) else 0)
          in d\<lparr>hotels := updateFirst (\<lambda>h. h_id h = hotelId)
                            (\<lambda>h. h\<lparr>averageRating := average\<rparr>) (hotels d)\<rparr>)"

text \<open>
  \<open>newRating\<close> is \<open>Number(req.body.rating)\<close>, a number: the handlers do not test its
  range. The update and delete handlers start \<open>recalculateHotelRating\<close> without
  awaiting it; here it has run before the next request is served.
\<close>

definition review_post ::
  "(rat \<Rightarrow> rat) \<Rightarrow> db \<Rightarrow> objectId option \<Rightarrow> objectId \<Rightarrow> string \<Rightarrow> rat \<Rightarrow> objectId
     \<Rightarrow> response \<times> db" where
  "review_post fl d session hotelId body_text newRating newId =
     (case session of
        None \<Rightarrow> (Redirect ''/login'', d)
      | Some userId \<Rightarrow>
          (case find (\<lambda>h. h_id h = hotelId) (hotels d) of
             None \<Rightarrow> (Unhandled, d)
           | Some hotel \<Rightarrow>
               (case find (\<lambda>u. u_id u = userId) (users d) of
                  None \<Rightarrow> (Unhandled, d)
                | Some user \<Rightarrow>
                    if h_author hotel = u_id user then (Send ''Cannot review own hotel'', d)
                    else if isAdmin user then (Send ''Admins cannot add reviews'', d)
                    else
                      (case find (\<lambda>b. b_hotel b = hotelId \<and> b_user b = u_id user \<and>
                                       b_status b = Confirmed \<and> paymentStatus b = Completed)
                                 (bookings d) of
                         None \<Rightarrow>
                           (Send ''You can only review hotels you have booked and stayed at'', d)
                       | Some hasBooked \<Rightarrow>
                           (case find (\<lambda>r. r_author r = u_id user)
                                      (populate (h_reviews hotel) (reviews d)) of
                              Some existing \<Rightarrow> (Send ''Already reviewed'', d)
                            | None \<Rightarrow>
                                let review = \<lparr>r_id = newId, text_of = body_text,
                                              rating = newRating, r_author = u_id user\<rparr>;
                                    d1 = d\<lparr>reviews := reviews d @ [review]\<rparr>;
                                    d2 = d1\<lparr>hotels := updateFirst (\<lambda>h. h_id h = hotelId)
                                           (\<lambda>h. h\<lparr>h_reviews := h_reviews h @ [newId]\<rparr>)
                                           (hotels d1)\<rparr>
                                in (RedirectHotel hotelId,
                                    recalculateHotelRating fl d2 hotelId))))))"

definition review_put ::
  "(rat \<Rightarrow> rat) \<Rightarrow> db \<Rightarrow> objectId option \<Rightarrow> objectId \<Rightarrow> objectId \<Rightarrow> string \<Rightarrow> rat
     \<Rightarrow> response \<times> db" where
  "review_put fl d session hotelId reviewId body_text newRating =
     (case session of
        None \<Rightarrow> (Redirect ''/login'', d)
      | Some userId \<Rightarrow>
          (case find (\<lambda>r. r_id r = reviewId) (reviews d) of
             None \<Rightarrow> (Unhandled, d)
           | Some review \<Rightarrow>
               if r_author review \<noteq> userId then (Redirect ''back'', d)
               else
                 let d1 = d\<lparr>reviews := updateFirst (\<lambda>r. r_id r = reviewId)
                               (\<lambda>r. r\<lparr>text_of := body_text, rating := newRating\<rparr>)
                               (reviews d)\<rparr>
                 in (RedirectHotel hotelId, recalculateHotelRating fl d1 hotelId)))"

definition review_delete ::
  "(rat \<Rightarrow> rat) \<Rightarrow> db \<Rightarrow> objectId option \<Rightarrow> objectId \<Rightarrow> objectId \<Rightarrow> response \<times> db" where
  "review_delete fl d session hotelId reviewId =
     (case session of
        None \<Rightarrow> (Redirect ''/login'', d)
      | Some userId \<Rightarrow>
          (case find (\<lambda>r. r_id r = reviewId) (reviews d) of
             None \<Rightarrow> (Unhandled, d)
           | Some review \<Rightarrow>
               if r_author review \<noteq> userId then (Redirect ''back'', d)
               else
                 let d1 = d\<lparr>hotels := updateFirst (\<lambda>h. h_id h = hotelId)
                               (\<lambda>h. h\<lparr>h_reviews := removeAll reviewId (h_reviews h)\<rparr>)
                               (hotels d)\<rparr>;
                     d2 = d1\<lparr>reviews := deleteFirst (\<lambda>r. r_id r = reviewId) (reviews d1)\<rparr>
                 in (RedirectHotel hotelId, recalculateHotelRating fl d2 hotelId)))"

text \<open>
  The rating rule in the specification's words: the sum of the ratings divided by their
  count, or 0 with no reviews, in the program's arithmetic (the sum taken from the left,
  each step rounded by \<open>fl\<close>). A hotel is consistent when its stored average is this value
  for its current reviews; the specification's invariant adds the ranges.
\<close>

definition spec_average :: "(rat \<Rightarrow> rat) \<Rightarrow> rat list \<Rightarrow> rat" where
  "spec_average fl xs =
     (if xs = [] then 0 else fl (foldl (\<lambda>s x. fl (s + x)) 0 xs / of_nat (length xs)))"

definition consistentHotel :: "(rat \<Rightarrow> rat) \<Rightarrow> review list \<Rightarrow> hotel \<Rightarrow> bool" where
  "consistentHotel fl rs h =
     (averageRating h = spec_average fl (map rating (populate (h_reviews h) rs)))"

definition ratingConsistent :: "(rat \<Rightarrow> rat) \<Rightarrow> db \<Rightarrow> bool" where
  "ratingConsistent fl d = list_all (consistentHotel fl (reviews d)) (hotels d)"

definition ratingsInRange :: "review list \<Rightarrow> hotel \<Rightarrow> bool" where
  "ratingsInRange rs h =
     list_all (\<lambda>r. 1 \<le> rating r \<and> rating r \<le> 5) (populate (h_reviews h) rs)"

definition ratingInvariant :: "(rat \<Rightarrow> rat) \<Rightarrow> db \<Rightarrow> bool" where
  "ratingInvariant fl d =
     (list_all (\<lambda>r. 1 \<le> rating r \<and> rating r \<le> 5) (reviews d) \<and>
      list_all (\<lambda>h. 0 \<le> averageRating h \<and> averageRating h \<le> 5) (hotels d) \<and>
      ratingConsistent fl d)"

section \<open>Example states\<close>

definition user0 :: user where
  "user0 = \<lparr>u_id = 1, username = ''ann'', isAdmin = False\<rparr>"

definition hotel0 :: hotel where
  "hotel0 = \<lparr>h_id = 7, price = 100, totalRooms = 10, averageRating = 0, h_author = 2,
             h_reviews = []\<rparr>"

definition db0 :: db where
  "db0 = \<lparr>users = [user0], hotels = [hotel0], reviews = [], bookings = [], payments = []\<rparr>"

text \<open>A booking of user 1 for three nights from day 30 (milliseconds), not yet paid.\<close>

definition booking0 :: booking where
  "booking0 = \<lparr>b_id = 42, b_hotel = 7, b_user = 1, checkInDate = 30 * 86400000,
               checkOutDate = 33 * 86400000, numberOfRooms = 2, totalPrice = 600,
               b_status = Pending, paymentStatus = PaymentPending,
               b_paymentIntentId = None, b_createdAt = 0\<rparr>"

definition dbPending :: db where
  "dbPending = db0\<lparr>bookings := [booking0]\<rparr>"

text \<open>The same booking after two loads of the payment page: two payment attempts.\<close>

definition paymentA :: payment where
  "paymentA = \<lparr>p_id = 100, p_booking = 42, p_user = 1, amount = 600,
               p_paymentIntentId = ''pi_1'', p_status = AttemptPending, p_createdAt = 1\<rparr>"

definition paymentB :: payment where
  "paymentB = \<lparr>p_id = 101, p_booking = 42, p_user = 1, amount = 600,
               p_paymentIntentId = ''pi_2'', p_status = AttemptPending, p_createdAt = 2\<rparr>"

definition dbTwoAttempts :: db where
  "dbTwoAttempts =
     db0\<lparr>bookings := [booking0\<lparr>b_paymentIntentId := Some ''pi_2''\<rparr>],
         payments := [paymentA, paymentB]\<rparr>"

text \<open>The processor's success event for the second attempt, and a check of the signature that accepts
  the secret followed by the payload.\<close>

definition succeededB :: event where
  "succeededB = \<lparr>ev_type = ''payment_intent.succeeded'', intent_id = ''pi_2'',
                 metadata_bookingId = 42\<rparr>"

definition checkSig :: "string \<Rightarrow> string \<Rightarrow> string \<Rightarrow> string + event" where
  "checkSig body sig secret =
     (if sig = secret @ body then Inr succeededB
      else Inl ''No signatures found matching the expected signature for payload'')"

text \<open>The booking paid and confirmed, and the booking cancelled.\<close>

definition dbPaid :: db where
  "dbPaid =
     db0\<lparr>bookings := [booking0\<lparr>b_status := Confirmed, paymentStatus := Completed,
                                b_paymentIntentId := Some ''pi_2''\<rparr>],
         payments := [paymentB\<lparr>p_status := Succeeded\<rparr>]\<rparr>"

definition dbCancelled :: db where
  "dbCancelled =
     db0\<lparr>bookings := [booking0\<lparr>b_status := Cancelled, b_paymentIntentId := Some ''pi_2''\<rparr>],
         payments := [paymentB]\<rparr>"

text \<open>Two guests with a paid, confirmed stay each at hotel 7, which has no review yet.\<close>

definition user3 :: user where
  "user3 = \<lparr>u_id = 3, username = ''bob'', isAdmin = False\<rparr>"

definition dbStays :: db where
  "dbStays =
     \<lparr>users = [user0, user3], hotels = [hotel0], reviews = [],
      bookings = [booking0\<lparr>b_status := Confirmed, paymentStatus := Completed\<rparr>,
                  booking0\<lparr>b_id := 43, b_user := 3, b_status := Confirmed,
                           paymentStatus := Completed\<rparr>],
      payments = []\<rparr>"

text \<open>Exact arithmetic; a whole number typed into the rooms field.\<close>

definition exact :: "rat \<Rightarrow> rat" where
  "exact x = x"

definition wholeRooms :: "int \<Rightarrow> roomsField" where
  "wholeRooms k = \<lparr>asNumber = Finite (of_int k), asInt = Some k\<rparr>"

text \<open>
  Two time zones: UTC, and a zone one hour ahead of UTC that moves its clocks forward by
  an hour at the start of day 25 (UTC).
\<close>

definition utc :: timeZone where
  "utc = \<lparr>tzaOfUTC = (\<lambda>t. 0), tzaOfLocal = (\<lambda>t. 0)\<rparr>"

definition springForward :: timeZone where
  "springForward =
     \<lparr>tzaOfUTC = (\<lambda>t. if t < 25 * 86400000 then 3600000 else 7200000),
      tzaOfLocal = (\<lambda>t. if t < 25 * 86400000 + 3600000 then 3600000 else 7200000)\<rparr>"

text \<open>A second hotel, with the first hotel's one review: the state for a stale average.\<close>

definition hotel8 :: hotel where
  "hotel8 = \<lparr>h_id = 8, price = 80, totalRooms = 5, averageRating = 0, h_author = 2,
             h_reviews = []\<rparr>"

definition review200 :: review where
  "review200 = \<lparr>r_id = 200, text_of = ''fine'', rating = 5, r_author = 1\<rparr>"

definition dbTwoHotels :: db where
  "dbTwoHotels =
     \<lparr>users = [user0],
      hotels = [hotel0\<lparr>averageRating := 5, h_reviews := [200]\<rparr>, hotel8],
      reviews = [review200], bookings = [], payments = []\<rparr>"

text \<open>An admin beside the guest.\<close>

definition admin2 :: user where
  "admin2 = \<lparr>u_id = 2, username = ''root'', isAdmin = True\<rparr>"

definition dbWithAdmin :: db where
  "dbWithAdmin = db0\<lparr>users := [user0, admin2]\<rparr>"

section \<open>Collection lemmas\<close>

lemma find_updateFirst_same:
  "(\<And>x. P (f x) = P x) \<Longrightarrow> find P (updateFirst P f xs) = map_option f (find P xs)"
  by (induction xs) simp_all

lemma map_updateFirst_erase:
  "(\<And>x. g (f x) = g x) \<Longrightarrow> map g (updateFirst P f xs) = map g xs"
  by (induction xs) simp_all

lemma updateFirst_split:
  "find P xs = Some x \<Longrightarrow>
     \<exists>before after. xs = before @ x # after \<and> list_all (\<lambda>y. \<not> P y) before
       \<and> updateFirst P f xs = before @ f x # after"
proof (induction xs)
  case Nil
  then show ?case by simp
next
  case (Cons y ys)
  show ?case
  proof (cases "P y")
    case True
    with Cons.prems have "y = x" by simp
    with True have "y # ys = [] @ x # ys \<and> list_all (\<lambda>y. \<not> P y) []
        \<and> updateFirst P f (y # ys) = [] @ f x # ys" by simp
    then show ?thesis by blast
  next
    case False
    with Cons.prems have "find P ys = Some x" by simp
    from Cons.IH [OF this] obtain before after where
      "ys = before @ x # after" "list_all (\<lambda>y. \<not> P y) before"
      "updateFirst P f ys = before @ f x # after" by blast
    with False have "y # ys = (y # before) @ x # after
        \<and> list_all (\<lambda>y. \<not> P y) (y # before)
        \<and> updateFirst P f (y # ys) = (y # before) @ f x # after" by simp
    then show ?thesis by blast
  qed
qed


lemma set_updateFirst_other:
  "x \<in> set (updateFirst P f xs) \<Longrightarrow> \<not> P x \<Longrightarrow> (\<And>y. P y \<Longrightarrow> P (f y)) \<Longrightarrow> x \<in> set xs"
  by (induction xs) (auto split: if_splits)

lemma find_distinct_unique:
  assumes "distinct (map key xs)" and "find (\<lambda>x. key x = k) xs = Some y"
    and "x \<in> set xs" and "key x = k"
  shows "x = y"
proof -
  from assms(2) have "y \<in> set xs" and "key y = k"
    by (auto simp add: find_Some_iff)
  moreover from assms(1) have "inj_on key (set xs)" by (simp add: distinct_map)
  ultimately show ?thesis using assms(3,4) by (auto dest: inj_onD)
qed

lemma updateFirst_list_all_key:
  "distinct (map key xs) \<Longrightarrow> (\<And>x. x \<in> set xs \<Longrightarrow> key x \<noteq> k \<Longrightarrow> Q x)
     \<Longrightarrow> (\<And>x. x \<in> set xs \<Longrightarrow> key x = k \<Longrightarrow> Q (f x))
     \<Longrightarrow> list_all Q (updateFirst (\<lambda>x. key x = k) f xs)"
proof (induction xs)
  case Nil
  then show ?case by simp
next
  case (Cons x xs)
  show ?case
  proof (cases "key x = k")
    case True
    have "\<And>y. y \<in> set xs \<Longrightarrow> key y \<noteq> k"
    proof
      fix y assume "y \<in> set xs" and "key y = k"
      with True have "key x \<in> key ` set xs" by (metis imageI)
      with Cons.prems(1) show False by simp
    qed
    with Cons.prems(2) have "list_all Q xs" by (simp add: list_all_iff)
    moreover from True Cons.prems(3) have "Q (f x)" by simp
    ultimately show ?thesis using True by simp
  next
    case False
    with Cons show ?thesis by simp
  qed
qed

section \<open>Availability\<close>

lemma foldl_add_rooms:
  "foldl (\<lambda>sum booking. sum + numberOfRooms booking) a bs
     = a + sum_list (map numberOfRooms bs)"
  by (induction bs arbitrary: a) simp_all

lemma filter_confirmed_existing:
  "existingBookings (d\<lparr>bookings := filter (\<lambda>b. b_status b = Confirmed) (bookings d)\<rparr>) h ci co
     = existingBookings d h ci co"
  unfolding existingBookings_def
  by (auto intro!: filter_cong)

text \<open>
  C5. The committed-rooms count of a hotel for a requested interval is the sum of
  \<open>numberOfRooms\<close> over exactly the bookings of that hotel that are confirmed and satisfy
  \<open>existing.checkIn \<le> requested.checkOut\<close> and \<open>existing.checkOut \<ge> requested.checkIn\<close>;
  the available rooms are \<open>totalRooms\<close> minus that sum; pending and cancelled bookings
  contribute nothing (dropping them all from the collection, or adding one, leaves the
  count as it is).
\<close>

theorem bookedRooms_sum_confirmed_overlapping:
  "bookedRooms d hotelId checkIn checkOut
     = sum_list (map numberOfRooms
         (filter (\<lambda>b. b_hotel b = hotelId \<and> b_status b = Confirmed \<and>
                       checkInDate b \<le> checkOut \<and> checkOutDate b \<ge> checkIn) (bookings d)))
   \<and> availableRooms d hotel hotelId checkIn checkOut
     = totalRooms hotel - sum_list (map numberOfRooms
         (filter (\<lambda>b. b_hotel b = hotelId \<and> b_status b = Confirmed \<and>
                       checkInDate b \<le> checkOut \<and> checkOutDate b \<ge> checkIn) (bookings d)))
   \<and> bookedRooms (d\<lparr>bookings := filter (\<lambda>b. b_status b = Confirmed) (bookings d)\<rparr>)
        hotelId checkIn checkOut
     = bookedRooms d hotelId checkIn checkOut
   \<and> bookedRooms (d\<lparr>bookings := bookings d @ [other\<lparr>b_status := Pending\<rparr>]\<rparr>)
        hotelId checkIn checkOut
     = bookedRooms d hotelId checkIn checkOut
   \<and> bookedRooms (d\<lparr>bookings := bookings d @ [other\<lparr>b_status := Cancelled\<rparr>]\<rparr>)
        hotelId checkIn checkOut
     = bookedRooms d hotelId checkIn checkOut"
  unfolding availableRooms_def bookedRooms_def filter_confirmed_existing
  by (simp add: foldl_add_rooms existingBookings_def)

section \<open>Validation and pricing\<close>

lemma nights_exact:
  "nights exact checkIn checkOut = \<lceil>(of_int (checkOut - checkIn) :: rat) / 86400000\<rceil>
   \<and> (nights exact checkIn checkOut - 1) * 86400000 < checkOut - checkIn
   \<and> checkOut - checkIn \<le> nights exact checkIn checkOut * 86400000"
proof -
  define d where "d = checkOut - checkIn"
  define n where "n = \<lceil>(of_int d :: rat) / 86400000\<rceil>"
  have "of_int n - 1 < (of_int d :: rat) / 86400000"
    and "(of_int d :: rat) / 86400000 \<le> of_int n"
    unfolding n_def by linarith+
  then have "(of_int ((n - 1) * 86400000) :: rat) < of_int d"
    and "(of_int d :: rat) \<le> of_int (n * 86400000)"
    by (simp_all add: field_simps)
  then have "(n - 1) * 86400000 < d" and "d \<le> n * 86400000"
    by (simp_all only: of_int_less_iff of_int_le_iff)
  moreover have "nights exact checkIn checkOut = n"
    by (simp add: nights_def exact_def dayMs_def n_def d_def)
  ultimately show ?thesis by (simp add: d_def n_def)
qed

text \<open>
  C6, amended. For a booking request of a logged-in user who is not an admin, for an
  existing hotel and two valid dates: the answer is "Invalid dates" exactly when
  \<open>checkIn < now\<close> or \<open>checkOut \<le> checkIn\<close>; otherwise it is "Only n rooms available"
  exactly when the number in \<open>numberOfRooms\<close> exceeds the available count, and then
  \<open>n\<close> is that count; otherwise, for a whole number of rooms of at least one, a pending
  booking is created with \<open>totalPrice = price * numberOfRooms * nights\<close> and
  \<open>nights = ceil((checkOut - checkIn) / 1 day)\<close>, each operation rounded as the doubles
  round it (and exactly so in exact arithmetic); a room count that \<open>parseInt\<close> does not
  read, or reads as less than one, or whose number is NaN, ends in "Booking failed";
  whatever the request, an answer other than the redirect to the payment page leaves
  the database unchanged; with an invalid date the comparisons are false.
\<close>

theorem book_post_outcomes:
  assumes user: "find (\<lambda>u. u_id u = userId) (users d) = Some user"
    and nonadmin: "\<not> isAdmin user"
    and hotel: "find (\<lambda>h. h_id h = hotelId) (hotels d) = Some hotel"
  shows
    "(fst (book_post fl d (Some userId) hotelId (Some ci) (Some co) rooms today newId)
          = Send ''Invalid dates''
        \<longleftrightarrow> ci < today \<or> co \<le> ci)
     \<and> (\<not> (ci < today \<or> co \<le> ci) \<longrightarrow>
          ((\<exists>a. fst (book_post fl d (Some userId) hotelId (Some ci) (Some co) rooms today newId)
                  = OnlyRoomsAvailable a)
             \<longleftrightarrow> jsGreater (asNumber rooms) (totalRooms hotel - bookedRooms d hotelId ci co))
          \<and> (jsGreater (asNumber rooms) (totalRooms hotel - bookedRooms d hotelId ci co) \<longrightarrow>
               fst (book_post fl d (Some userId) hotelId (Some ci) (Some co) rooms today newId)
                 = OnlyRoomsAvailable (totalRooms hotel - bookedRooms d hotelId ci co)))
     \<and> (\<not> (ci < today \<or> co \<le> ci)
          \<and> k \<le> totalRooms hotel - bookedRooms d hotelId ci co \<and> 1 \<le> k \<longrightarrow>
          book_post fl d (Some userId) hotelId (Some ci) (Some co) (wholeRooms k) today newId
            = (RedirectPayment newId,
               d\<lparr>bookings := bookings d @
                  [\<lparr>b_id = newId, b_hotel = hotelId, b_user = u_id user,
                    checkInDate = ci, checkOutDate = co, numberOfRooms = k,
                    totalPrice = fl (fl (price hotel * of_int k)
                       * of_int \<lceil>fl (fl (of_int (co - ci)) / 86400000)\<rceil>),
                    b_status = Pending, paymentStatus = PaymentPending,
                    b_paymentIntentId = None, b_createdAt = today\<rparr>]\<rparr>))
     \<and> (\<not> (ci < today \<or> co \<le> ci)
          \<and> k \<le> totalRooms hotel - bookedRooms d hotelId ci co \<and> 1 \<le> k \<longrightarrow>
          map totalPrice (bookings (snd
            (book_post exact d (Some userId) hotelId (Some ci) (Some co) (wholeRooms k)
               today newId)))
            = map totalPrice (bookings d)
                @ [price hotel * of_int k * of_int \<lceil>(of_int (co - ci) :: rat) / 86400000\<rceil>])
     \<and> (\<not> (ci < today \<or> co \<le> ci)
          \<and> \<not> jsGreater (asNumber rooms) (totalRooms hotel - bookedRooms d hotelId ci co)
          \<and> (asInt rooms = None \<or> asInt rooms = Some k \<and> k < 1
               \<or> asNumber rooms = NaN \<or> asNumber rooms = MinusInfinity) \<longrightarrow>
          book_post fl d (Some userId) hotelId (Some ci) (Some co) rooms today newId
            = (Send ''Booking failed'', d))
     \<and> (fst (book_post fl d (Some userId) hotelId checkIn checkOut rooms today newId)
          \<noteq> RedirectPayment newId \<longrightarrow>
          snd (book_post fl d (Some userId) hotelId checkIn checkOut rooms today newId) = d)
     \<and> (fst (book_post fl d (Some userId) hotelId checkIn checkOut rooms today newId)
          = Send ''Invalid dates''
        \<longleftrightarrow> dateLess checkIn (Some today) \<or> dateLessEq checkOut checkIn)"
proof -
  let ?R = "book_post fl d (Some userId) hotelId (Some ci) (Some co) rooms today newId"
  let ?a = "totalRooms hotel - bookedRooms d hotelId ci co"
  have c1: "fst ?R = Send ''Invalid dates'' \<longleftrightarrow> ci < today \<or> co \<le> ci"
    using assms
    by (simp add: book_post_def availableRooms_def Let_def
        split: jsNumber.splits option.splits)
  have c2: "\<not> (ci < today \<or> co \<le> ci) \<longrightarrow>
      ((\<exists>a. fst ?R = OnlyRoomsAvailable a) \<longleftrightarrow> jsGreater (asNumber rooms) ?a)
      \<and> (jsGreater (asNumber rooms) ?a \<longrightarrow> fst ?R = OnlyRoomsAvailable ?a)"
    using assms
    by (simp add: book_post_def availableRooms_def Let_def
        split: jsNumber.splits option.splits)
  have c3: "\<not> (ci < today \<or> co \<le> ci) \<and> k \<le> ?a \<and> 1 \<le> k \<longrightarrow>
      book_post fl d (Some userId) hotelId (Some ci) (Some co) (wholeRooms k) today newId
        = (RedirectPayment newId,
           d\<lparr>bookings := bookings d @
              [\<lparr>b_id = newId, b_hotel = hotelId, b_user = u_id user,
                checkInDate = ci, checkOutDate = co, numberOfRooms = k,
                totalPrice = fl (fl (price hotel * of_int k)
                   * of_int \<lceil>fl (fl (of_int (co - ci)) / 86400000)\<rceil>),
                b_status = Pending, paymentStatus = PaymentPending,
                b_paymentIntentId = None, b_createdAt = today\<rparr>]\<rparr>)"
    using assms
    by (simp add: book_post_def availableRooms_def wholeRooms_def nights_def dayMs_def Let_def)
  have c3e: "\<not> (ci < today \<or> co \<le> ci) \<and> k \<le> ?a \<and> 1 \<le> k \<longrightarrow>
      map totalPrice (bookings (snd
        (book_post exact d (Some userId) hotelId (Some ci) (Some co) (wholeRooms k)
           today newId)))
        = map totalPrice (bookings d)
            @ [price hotel * of_int k * of_int \<lceil>(of_int (co - ci) :: rat) / 86400000\<rceil>]"
    using assms
    by (simp add: book_post_def availableRooms_def wholeRooms_def nights_def dayMs_def Let_def
        exact_def)
  have c4: "\<not> (ci < today \<or> co \<le> ci) \<and> \<not> jsGreater (asNumber rooms) ?a
      \<and> (asInt rooms = None \<or> asInt rooms = Some k \<and> k < 1
           \<or> asNumber rooms = NaN \<or> asNumber rooms = MinusInfinity) \<longrightarrow>
      ?R = (Send ''Booking failed'', d)"
    using assms
    by (auto simp add: book_post_def availableRooms_def Let_def
        split: jsNumber.splits option.splits)
  have c5: "fst (book_post fl d (Some userId) hotelId checkIn checkOut rooms today newId)
          \<noteq> RedirectPayment newId \<longrightarrow>
          snd (book_post fl d (Some userId) hotelId checkIn checkOut rooms today newId) = d"
    using assms
    by (simp add: book_post_def availableRooms_def Let_def
        split: jsNumber.splits option.splits)
  have c6: "fst (book_post fl d (Some userId) hotelId checkIn checkOut rooms today newId)
          = Send ''Invalid dates''
        \<longleftrightarrow> dateLess checkIn (Some today) \<or> dateLessEq checkOut checkIn"
    using assms
    by (simp add: book_post_def availableRooms_def Let_def
        split: jsNumber.splits option.splits)
  from c1 c2 c3 c3e c4 c5 c6 show ?thesis by (intro conjI)
qed

theorem book_post_outcomes_witness:
  "book_post exact db0 (Some 1) 7 (Some 86400000) (Some (4 * 86400000)) (wholeRooms 2) 0 42
     = (RedirectPayment 42,
        db0\<lparr>bookings :=
           [\<lparr>b_id = 42, b_hotel = 7, b_user = 1,
             checkInDate = 86400000, checkOutDate = 4 * 86400000, numberOfRooms = 2,
             totalPrice = 600,
             b_status = Pending, paymentStatus = PaymentPending,
             b_paymentIntentId = None, b_createdAt = 0\<rparr>]\<rparr>)"
  using book_post_outcomes [where userId = 1 and d = db0 and user = user0 and hotelId = 7
      and hotel = hotel0 and ci = 86400000 and co = "4 * 86400000" and k = 2
      and today = 0 and newId = 42 and fl = exact and rooms = "wholeRooms 2"
      and checkIn = "Some 86400000" and checkOut = "Some (4 * 86400000)"]
  by (simp add: db0_def user0_def hotel0_def bookedRooms_def existingBookings_def exact_def)

text \<open>
  C6, as stated: every request fails with invalid dates, or else with insufficient
  availability, or else is priced. It fails: a request for 0 rooms with valid dates and
  rooms available is answered "Booking failed", and an admin's request with
  \<open>checkOut \<le> checkIn\<close> is answered "Admins cannot book hotels".
\<close>

theorem book_post_outcomes_counterexample:
  "\<not> ((86400000::int) < 0 \<or> 4 * 86400000 \<le> (86400000::int))
   \<and> \<not> jsGreater (asNumber (wholeRooms 0)) (availableRooms db0 hotel0 7 86400000 (4 * 86400000))
   \<and> book_post exact db0 (Some 1) 7 (Some 86400000) (Some (4 * 86400000)) (wholeRooms 0) 0 42
       = (Send ''Booking failed'', db0)
   \<and> book_post exact dbWithAdmin (Some 2) 7 (Some (4 * 86400000)) (Some 86400000)
         (wholeRooms 2) 0 42
       = (Send ''Admins cannot book hotels'', dbWithAdmin)"
  by (simp add: book_post_def availableRooms_def bookedRooms_def existingBookings_def
      wholeRooms_def db0_def dbWithAdmin_def user0_def admin2_def hotel0_def)

text \<open>
  Where the two readings of \<open>numberOfRooms\<close> disagree, the availability test and the
  price use the number and the stored count is \<open>parseInt\<close>'s: \<open>'1e1'\<close> books one room
  at the price of ten.
\<close>

lemma book_post_coercions_disagree:
  "book_post exact db0 (Some 1) 7 (Some 86400000) (Some (4 * 86400000))
      \<lparr>asNumber = Finite 10, asInt = Some 1\<rparr> 0 42
     = (RedirectPayment 42,
        db0\<lparr>bookings :=
           [\<lparr>b_id = 42, b_hotel = 7, b_user = 1,
             checkInDate = 86400000, checkOutDate = 4 * 86400000, numberOfRooms = 1,
             totalPrice = 3000,
             b_status = Pending, paymentStatus = PaymentPending,
             b_paymentIntentId = None, b_createdAt = 0\<rparr>]\<rparr>)"
  by (simp add: book_post_def availableRooms_def bookedRooms_def existingBookings_def
      nights_def dayMs_def exact_def db0_def user0_def hotel0_def)

section \<open>Cancellation\<close>

lemma plusSevenDays_shift:
  "plusSevenDays tz now
     = now + 7 * 86400000
         + (tzaOfUTC tz now - tzaOfLocal tz (now + tzaOfUTC tz now + 7 * 86400000))"
  by (simp add: plusSevenDays_def dayMs_def Let_def)

text \<open>
  C7, amended. For a booking and its owner: on a booking that is not yet cancelled the
  cancellation takes effect (the status becomes cancelled) exactly when the instant
  seven calendar days after now, at the same local clock time, is before \<open>checkInDate\<close>,
  and is otherwise refused with "Cannot cancel booking within 1 week of check-in date";
  on a cancelled booking it is refused with "Booking is already cancelled"; every
  refusal leaves the database as it was. That instant is now + 7 * 24 hours plus the
  change of the server zone's UTC offset over the week: now + 7 * 24 hours when the
  offset does not change. Whenever the change is less than a day, a cancellation exactly
  eight days before check-in succeeds and one exactly six days before is refused.
\<close>

theorem cancel_post_window:
  assumes found: "find (\<lambda>b. b_id b = bookingId) (bookings d) = Some booking"
    and owner: "b_user booking = userId"
  shows
    "(b_status booking = Cancelled \<longrightarrow>
        cancel_post tz d (Some userId) bookingId now = (Send ''Booking is already cancelled'', d))
     \<and> (b_status booking \<noteq> Cancelled \<longrightarrow>
          (map_option b_status
               (find (\<lambda>b. b_id b = bookingId)
                  (bookings (snd (cancel_post tz d (Some userId) bookingId now))))
             = Some Cancelled
           \<longleftrightarrow> plusSevenDays tz now < checkInDate booking)
          \<and> (plusSevenDays tz now < checkInDate booking \<longrightarrow>
                fst (cancel_post tz d (Some userId) bookingId now) = Redirect ''/my-bookings'')
          \<and> (\<not> plusSevenDays tz now < checkInDate booking \<longrightarrow>
                cancel_post tz d (Some userId) bookingId now
                  = (Send ''Cannot cancel booking within 1 week of check-in date'', d)))
     \<and> plusSevenDays tz now
         = now + 7 * 86400000
             + (tzaOfUTC tz now - tzaOfLocal tz (now + tzaOfUTC tz now + 7 * 86400000))
     \<and> (tzaOfLocal tz (now + tzaOfUTC tz now + 7 * 86400000) = tzaOfUTC tz now \<longrightarrow>
          plusSevenDays tz now = now + 7 * 86400000)
     \<and> (b_status booking \<noteq> Cancelled
          \<and> \<bar>tzaOfUTC tz now - tzaOfLocal tz (now + tzaOfUTC tz now + 7 * 86400000)\<bar> < 86400000
          \<longrightarrow>
          (checkInDate booking = now + 8 * 86400000 \<longrightarrow>
             map_option b_status
               (find (\<lambda>b. b_id b = bookingId)
                  (bookings (snd (cancel_post tz d (Some userId) bookingId now))))
               = Some Cancelled)
          \<and> (checkInDate booking = now + 6 * 86400000 \<longrightarrow>
             cancel_post tz d (Some userId) bookingId now
               = (Send ''Cannot cancel booking within 1 week of check-in date'', d)))"
proof -
  let ?R = "cancel_post tz d (Some userId) bookingId now"
  have a: "b_status booking = Cancelled \<longrightarrow> ?R = (Send ''Booking is already cancelled'', d)"
    using assms by (simp add: cancel_post_def)
  have b: "b_status booking \<noteq> Cancelled \<longrightarrow>
      (map_option b_status (find (\<lambda>b. b_id b = bookingId) (bookings (snd ?R))) = Some Cancelled
         \<longleftrightarrow> plusSevenDays tz now < checkInDate booking)
      \<and> (plusSevenDays tz now < checkInDate booking \<longrightarrow> fst ?R = Redirect ''/my-bookings'')
      \<and> (\<not> plusSevenDays tz now < checkInDate booking \<longrightarrow>
            ?R = (Send ''Cannot cancel booking within 1 week of check-in date'', d))"
    using assms by (simp add: cancel_post_def Let_def find_updateFirst_same)
  note s = plusSevenDays_shift [of tz now]
  have c: "tzaOfLocal tz (now + tzaOfUTC tz now + 7 * 86400000) = tzaOfUTC tz now \<longrightarrow>
      plusSevenDays tz now = now + 7 * 86400000"
    using s by simp
  have e: "b_status booking \<noteq> Cancelled
      \<and> \<bar>tzaOfUTC tz now - tzaOfLocal tz (now + tzaOfUTC tz now + 7 * 86400000)\<bar> < 86400000
      \<longrightarrow>
      (checkInDate booking = now + 8 * 86400000 \<longrightarrow>
         map_option b_status (find (\<lambda>b. b_id b = bookingId) (bookings (snd ?R)))
           = Some Cancelled)
      \<and> (checkInDate booking = now + 6 * 86400000 \<longrightarrow>
         ?R = (Send ''Cannot cancel booking within 1 week of check-in date'', d))"
  proof (intro impI conjI)
    assume h: "b_status booking \<noteq> Cancelled
      \<and> \<bar>tzaOfUTC tz now - tzaOfLocal tz (now + tzaOfUTC tz now + 7 * 86400000)\<bar> < 86400000"
      and eight: "checkInDate booking = now + 8 * 86400000"
    from h s eight have "plusSevenDays tz now < checkInDate booking" by linarith
    with b h show "map_option b_status
        (find (\<lambda>b. b_id b = bookingId) (bookings (snd ?R))) = Some Cancelled" by blast
  next
    assume h: "b_status booking \<noteq> Cancelled
      \<and> \<bar>tzaOfUTC tz now - tzaOfLocal tz (now + tzaOfUTC tz now + 7 * 86400000)\<bar> < 86400000"
      and six: "checkInDate booking = now + 6 * 86400000"
    from h s six have "\<not> plusSevenDays tz now < checkInDate booking" by linarith
    with b h show "?R = (Send ''Cannot cancel booking within 1 week of check-in date'', d)"
      by blast
  qed
  from a b s c e show ?thesis by (intro conjI)
qed

theorem cancel_post_window_witness:
  "cancel_post utc dbPending (Some 1) 42 (22 * 86400000)
     = (Redirect ''/my-bookings'',
        dbPending\<lparr>bookings := [booking0\<lparr>b_status := Cancelled\<rparr>]\<rparr>)
   \<and> cancel_post utc dbPending (Some 1) 42 (24 * 86400000)
     = (Send ''Cannot cancel booking within 1 week of check-in date'', dbPending)
   \<and> cancel_post utc dbCancelled (Some 1) 42 (22 * 86400000)
     = (Send ''Booking is already cancelled'', dbCancelled)"
  using cancel_post_window [where d = dbPending and bookingId = 42 and booking = booking0
      and userId = 1 and now = "22 * 86400000" and tz = utc]
    cancel_post_window [where d = dbPending and bookingId = 42 and booking = booking0
      and userId = 1 and now = "24 * 86400000" and tz = utc]
    cancel_post_window [where d = dbCancelled and bookingId = 42
      and booking = "booking0\<lparr>b_status := Cancelled, b_paymentIntentId := Some ''pi_2''\<rparr>"
      and userId = 1 and now = "22 * 86400000" and tz = utc]
  by (simp add: dbPending_def dbCancelled_def db0_def booking0_def cancel_post_def dayMs_def
      plusSevenDays_def utc_def)

text \<open>
  C7, as stated: the cancellation succeeds exactly when \<open>now + 7 days < checkInDate\<close>,
  the days being 24 hours. It fails in a week in which the clocks move forward: half an
  hour less than seven days before check-in the limit is already 30 minutes before the
  check-in, and the booking is cancelled.
\<close>

theorem cancel_post_window_counterexample:
  "\<not> (23 * 86400000 + 1800000 + 7 * 86400000 < checkInDate booking0)
   \<and> plusSevenDays springForward (23 * 86400000 + 1800000) = 30 * 86400000 - 1800000
   \<and> cancel_post springForward dbPending (Some 1) 42 (23 * 86400000 + 1800000)
       = (Redirect ''/my-bookings'',
          dbPending\<lparr>bookings := [booking0\<lparr>b_status := Cancelled\<rparr>]\<rparr>)"
  by (simp add: dbPending_def db0_def booking0_def cancel_post_def dayMs_def
      plusSevenDays_def springForward_def)

text \<open>
  C10. A successful cancellation sets the status of this one booking and nothing else:
  the database afterwards is the old one with the first booking of that id given the
  status cancelled; the bookings before and after it in the collection are the same
  documents, and the booking itself keeps paymentStatus, totalPrice, the dates,
  numberOfRooms and paymentIntentId; payments, users, hotels and reviews are unchanged.
  The instance: a paid, confirmed booking keeps paymentStatus completed and its payment
  record succeeded.
\<close>

theorem cancel_post_frame:
  assumes found: "find (\<lambda>b. b_id b = bookingId) (bookings d) = Some booking"
    and owner: "b_user booking = userId"
    and active: "b_status booking \<noteq> Cancelled"
    and window: "plusSevenDays tz now < checkInDate booking"
  shows
    "cancel_post tz d (Some userId) bookingId now
       = (Redirect ''/my-bookings'',
          d\<lparr>bookings := updateFirst (\<lambda>b. b_id b = bookingId)
                           (\<lambda>b. b\<lparr>b_status := Cancelled\<rparr>) (bookings d)\<rparr>)
     \<and> (\<exists>before after.
          bookings d = before @ booking # after
          \<and> list_all (\<lambda>b. b_id b \<noteq> bookingId) before
          \<and> bookings (snd (cancel_post tz d (Some userId) bookingId now))
              = before @ booking\<lparr>b_status := Cancelled\<rparr> # after)
     \<and> find (\<lambda>b. b_id b = bookingId)
          (bookings (snd (cancel_post tz d (Some userId) bookingId now)))
         = Some (booking\<lparr>b_status := Cancelled\<rparr>)
     \<and> payments (snd (cancel_post tz d (Some userId) bookingId now)) = payments d
     \<and> users (snd (cancel_post tz d (Some userId) bookingId now)) = users d
     \<and> hotels (snd (cancel_post tz d (Some userId) bookingId now)) = hotels d
     \<and> reviews (snd (cancel_post tz d (Some userId) bookingId now)) = reviews d"
proof -
  have r: "cancel_post tz d (Some userId) bookingId now
       = (Redirect ''/my-bookings'',
          d\<lparr>bookings := updateFirst (\<lambda>b. b_id b = bookingId)
                           (\<lambda>b. b\<lparr>b_status := Cancelled\<rparr>) (bookings d)\<rparr>)"
    using assms by (simp add: cancel_post_def Let_def)
  from updateFirst_split [OF found, of "\<lambda>b. b\<lparr>b_status := Cancelled\<rparr>"]
  obtain before after where
    "bookings d = before @ booking # after" "list_all (\<lambda>b. b_id b \<noteq> bookingId) before"
    "updateFirst (\<lambda>b. b_id b = bookingId) (\<lambda>b. b\<lparr>b_status := Cancelled\<rparr>) (bookings d)
       = before @ booking\<lparr>b_status := Cancelled\<rparr> # after" by blast
  then have e: "\<exists>before after.
          bookings d = before @ booking # after
          \<and> list_all (\<lambda>b. b_id b \<noteq> bookingId) before
          \<and> bookings (snd (cancel_post tz d (Some userId) bookingId now))
              = before @ booking\<lparr>b_status := Cancelled\<rparr> # after"
    unfolding r by auto
  have f: "find (\<lambda>b. b_id b = bookingId)
          (bookings (snd (cancel_post tz d (Some userId) bookingId now)))
         = Some (booking\<lparr>b_status := Cancelled\<rparr>)"
    unfolding r using found by (simp add: find_updateFirst_same)
  from r e f show ?thesis by simp
qed

theorem cancel_post_frame_witness:
  "snd (cancel_post utc dbPaid (Some 1) 42 (22 * 86400000))
     = db0\<lparr>bookings := [booking0\<lparr>b_status := Cancelled, paymentStatus := Completed,
                                  b_paymentIntentId := Some ''pi_2''\<rparr>],
           payments := [paymentB\<lparr>p_status := Succeeded\<rparr>]\<rparr>"
  using cancel_post_frame [where d = dbPaid and bookingId = 42 and userId = 1
      and now = "22 * 86400000" and tz = utc
      and booking = "booking0\<lparr>b_status := Confirmed, paymentStatus := Completed,
                                b_paymentIntentId := Some ''pi_2''\<rparr>"]
  by (simp add: dbPaid_def db0_def booking0_def cancel_post_def dayMs_def plusSevenDays_def
      utc_def)

section \<open>Webhook signature\<close>

text \<open>
  C8. When the verification of the payload's signature against the webhook secret fails,
  the webhook handler answers 400 "Webhook Error: ..." and the database is unchanged: no
  booking and no payment record is written.
\<close>

theorem webhook_invalid_signature:
  assumes "constructEvent body sig webhookSecret = Inl message"
  shows "webhook_stripe constructEvent webhookSecret d body sig
           = (SendStatus 400 (''Webhook Error: '' @ message), d)"
  using assms by (simp add: webhook_stripe_def)

theorem webhook_invalid_signature_witness:
  "webhook_stripe checkSig ''whsec'' dbTwoAttempts ''payload'' ''forged''
     = (SendStatus 400
          (''Webhook Error: ''
             @ ''No signatures found matching the expected signature for payload''),
        dbTwoAttempts)
   \<and> snd (webhook_stripe checkSig ''whsec'' dbTwoAttempts ''payload'' ''whsecpayload'')
       \<noteq> dbTwoAttempts"
  using webhook_invalid_signature [where constructEvent = checkSig and body = "''payload''"
      and sig = "''forged''" and webhookSecret = "''whsec''" and d = dbTwoAttempts
      and message = "''No signatures found matching the expected signature for payload''"]
  by (simp add: checkSig_def webhook_stripe_def succeededB_def dbTwoAttempts_def db0_def
      paymentA_def paymentB_def booking0_def)

section \<open>Payment confirmation\<close>

text \<open>
  The webhook route never writes: its handler is always given a parsed body, for which
  the signature check throws. Each confirmation handler applied twice gives what it
  gives once; the success page changes nothing for anyone but the booking's owner, and a
  cancellation changes nothing on a cancelled booking.
\<close>

lemma stripe_constructEvent_parsed:
  "stripe_constructEvent verify (Parsed object) header secret
     = Inl ''No signatures found matching the expected signature for payload''"
  by (simp add: stripe_constructEvent_def)

lemma webhook_route_unchanged:
  "snd (webhook_route parses verify secret d contentType raw sig) = d
   \<and> (\<exists>message. fst (webhook_route parses verify secret d contentType raw sig)
          = SendStatus 400 message)"
  by (simp add: webhook_route_def webhook_stripe_def stripe_constructEvent_parsed)



lemma payment_success_owner_only:
  "find (\<lambda>b. b_id b = bookingId) (bookings d) = Some booking \<Longrightarrow> b_user booking \<noteq> userId
     \<Longrightarrow> payment_success d (Some userId) (Some bookingId) = (Redirect ''/my-bookings'', d)"
  by (simp add: payment_success_def)

lemma cancelled_kept_by_cancel:
  "find (\<lambda>b. b_id b = bookingId) (bookings d) = Some booking \<Longrightarrow> b_status booking = Cancelled
     \<Longrightarrow> snd (cancel_post tz d session bookingId now) = d"
  by (simp add: cancel_post_def split: option.splits)

text \<open>
  C1. A booking becomes confirmed (with paymentStatus completed) only through a payment
  confirmation that reports success for its payment intent. The success page does not
  meet this: for a pending booking with no payment record and no payment intent, the
  owner's request of the page alone leaves it confirmed and completed.
\<close>

theorem payment_success_confirms_unpaid:
  "payments dbPending = []
   \<and> map b_paymentIntentId (bookings dbPending) = [None]
   \<and> map b_status (bookings dbPending) = [Pending]
   \<and> payment_success dbPending (Some 1) (Some 42)
     = (Redirect ''/my-bookings?payment=success'',
        dbPending\<lparr>bookings := [booking0\<lparr>b_status := Confirmed, paymentStatus := Completed\<rparr>]\<rparr>)"
  by (simp add: payment_success_def dbPending_def db0_def booking0_def)


text \<open>
  C2. No later operation changes the status of a cancelled booking. The success page
  does: it applies its update whatever the booking's status is, and the owner's request
  turns the cancelled booking (whose payment is still pending) into a confirmed,
  completed one with a succeeded payment.
\<close>

theorem payment_success_confirms_cancelled:
  "map b_status (bookings dbCancelled) = [Cancelled]
   \<and> map p_status (payments dbCancelled) = [AttemptPending]
   \<and> payment_success dbCancelled (Some 1) (Some 42)
     = (Redirect ''/my-bookings?payment=success'',
        dbCancelled
          \<lparr>bookings := [booking0\<lparr>b_status := Confirmed, paymentStatus := Completed,
                                 b_paymentIntentId := Some ''pi_2''\<rparr>],
           payments := [paymentB\<lparr>p_status := Succeeded\<rparr>]\<rparr>)"
  by (simp add: payment_success_def dbCancelled_def db0_def booking0_def paymentB_def)


text \<open>An instance with two payment attempts, and how that state comes about.\<close>

lemma confirmation_twice_example:
  "map p_status (payments (snd (payment_success dbTwoAttempts (Some 1) (Some 42))))
     = [Succeeded, AttemptPending]
   \<and> map p_status (payments (snd (payment_success
         (snd (webhook_route (\<lambda>raw. True) checkSig ''whsec''
                 (snd (payment_success dbTwoAttempts (Some 1) (Some 42)))
                 ''application/json'' ''payload'' ''whsecpayload''))
         (Some 1) (Some 42))))
     = [Succeeded, AttemptPending]"
  by (simp add: webhook_route_unchanged)
     (simp add: payment_success_def dbTwoAttempts_def db0_def booking0_def paymentA_def
        paymentB_def)

lemma dbTwoAttempts_reached:
  "snd (payment_post
          (snd (payment_post dbPending (Some 1) 42 (Inr (''pi_1'', ''cs_1'')) 100 1))
          (Some 1) 42 (Inr (''pi_2'', ''cs_2'')) 101 2)
     = dbTwoAttempts"
  by (simp add: payment_post_def dbPending_def dbTwoAttempts_def db0_def booking0_def
      user0_def paymentA_def paymentB_def)

text \<open>
  C4. The webhook path and the success-page path end in the same booking and payment
  state. They do not: a delivery of the processor's success event, whose signature is
  valid for the raw payload, is answered 400 by the webhook route and leaves the booking
  pending and its payments pending, while the owner's request of the success page
  leaves the booking confirmed and its first payment succeeded.
\<close>

theorem webhook_route_drops_genuine_event:
  "checkSig ''payload'' ''whsecpayload'' ''whsec'' = Inr succeededB
   \<and> webhook_route (\<lambda>raw. True) checkSig ''whsec'' dbTwoAttempts
         ''application/json'' ''payload'' ''whsecpayload''
       = (SendStatus 400
            (''Webhook Error: ''
               @ ''No signatures found matching the expected signature for payload''),
          dbTwoAttempts)
   \<and> map b_status (bookings dbTwoAttempts) = [Pending]
   \<and> map p_status (payments dbTwoAttempts) = [AttemptPending, AttemptPending]
   \<and> map b_status (bookings (snd (payment_success dbTwoAttempts (Some 1) (Some 42))))
       = [Confirmed]
   \<and> map p_status (payments (snd (payment_success dbTwoAttempts (Some 1) (Some 42))))
       = [Succeeded, AttemptPending]"
  by (simp add: webhook_route_def webhook_stripe_def stripe_constructEvent_def checkSig_def
      payment_success_def succeededB_def dbTwoAttempts_def db0_def booking0_def paymentA_def
      paymentB_def)

section \<open>Ratings\<close>

lemma populate_simps:
  "populate [] rs = []"
  "populate (i # ids) rs =
     (case find (\<lambda>r. r_id r = i) rs of None \<Rightarrow> populate ids rs | Some r \<Rightarrow> r # populate ids rs)"
  by (simp_all add: populate_def map_filter_simps split: option.splits)

lemma populate_cong:
  "(\<And>i. i \<in> set ids \<Longrightarrow> find (\<lambda>r. r_id r = i) rs' = find (\<lambda>r. r_id r = i) rs)
     \<Longrightarrow> populate ids rs' = populate ids rs"
  by (induction ids) (auto simp add: populate_simps split: option.splits)

lemma find_snoc_other:
  "\<not> P r \<Longrightarrow> find P (rs @ [r]) = find P rs"
  by (induction rs) simp_all

lemma find_review_updateFirst_other:
  "i \<noteq> j \<Longrightarrow> (\<And>r. r_id (g r) = r_id r)
     \<Longrightarrow> find (\<lambda>r. r_id r = i) (updateFirst (\<lambda>r. r_id r = j) g rs)
         = find (\<lambda>r. r_id r = i) rs"
  by (induction rs) auto

lemma find_review_deleteFirst_other:
  "i \<noteq> j \<Longrightarrow> find (\<lambda>r. r_id r = i) (deleteFirst (\<lambda>r. r_id r = j) rs)
         = find (\<lambda>r. r_id r = i) rs"
  by (induction rs) auto

lemma recalculate_average:
  "(if length rs > 0
      then fl (foldl (\<lambda>acc next. fl (acc + rating next)) 0 rs / of_nat (length rs)) else 0)
     = spec_average fl (map rating rs)"
  by (simp add: spec_average_def foldl_map)

lemma recalculateHotelRating_reviews:
  "reviews (recalculateHotelRating fl d hotelId) = reviews d"
  by (simp add: recalculateHotelRating_def Let_def split: option.splits)

lemma recalculateHotelRating_listed:
  "map h_reviews (hotels (recalculateHotelRating fl d hotelId)) = map h_reviews (hotels d)"
  by (simp add: recalculateHotelRating_def Let_def map_updateFirst_erase split: option.splits)

lemma recalculateHotelRating_consistent:
  assumes ids: "distinct (map h_id (hotels d))"
    and others: "\<And>h. h \<in> set (hotels d) \<Longrightarrow> h_id h \<noteq> hotelId
                   \<Longrightarrow> consistentHotel fl (reviews d) h"
  shows "ratingConsistent fl (recalculateHotelRating fl d hotelId)"
proof (cases "find (\<lambda>h. h_id h = hotelId) (hotels d)")
  case None
  then have "\<And>h. h \<in> set (hotels d) \<Longrightarrow> h_id h \<noteq> hotelId"
    by (auto simp add: find_None_iff)
  with others have "list_all (consistentHotel fl (reviews d)) (hotels d)"
    by (simp add: list_all_iff)
  with None show ?thesis
    by (simp add: recalculateHotelRating_def ratingConsistent_def)
next
  case (Some hotel)
  let ?A = "spec_average fl (map rating (populate (h_reviews hotel) (reviews d)))"
  have upd: "recalculateHotelRating fl d hotelId
      = d\<lparr>hotels := updateFirst (\<lambda>h. h_id h = hotelId)
             (\<lambda>h. h\<lparr>averageRating := ?A\<rparr>) (hotels d)\<rparr>"
    using Some
    by (simp add: recalculateHotelRating_def Let_def recalculate_average
        del: length_greater_0_conv)
  have "list_all (consistentHotel fl (reviews d))
      (updateFirst (\<lambda>h. h_id h = hotelId) (\<lambda>h. h\<lparr>averageRating := ?A\<rparr>) (hotels d))"
  proof (rule updateFirst_list_all_key [OF ids])
    fix h assume "h \<in> set (hotels d)" "h_id h \<noteq> hotelId"
    then show "consistentHotel fl (reviews d) h" by (rule others)
  next
    fix h assume "h \<in> set (hotels d)" "h_id h = hotelId"
    with find_distinct_unique [OF ids Some] have "h = hotel" by blast
    then show "consistentHotel fl (reviews d) (h\<lparr>averageRating := ?A\<rparr>)"
      by (simp add: consistentHotel_def)
  qed
  then show ?thesis by (simp add: upd ratingConsistent_def)
qed

lemma consistentHotel_populate:
  "populate (h_reviews h) rs' = populate (h_reviews h) rs
     \<Longrightarrow> consistentHotel fl rs' h = consistentHotel fl rs h"
  by (simp add: consistentHotel_def)

lemma created_review_consistent:
  assumes ids: "distinct (map h_id (hotels d))"
    and cons: "ratingConsistent fl d"
    and fresh: "\<And>h. h \<in> set (hotels d) \<Longrightarrow> newId \<notin> set (h_reviews h)"
    and rs: "reviews d2 = reviews d @ [r]" and r: "r_id r = newId"
    and hs: "hotels d2 = updateFirst (\<lambda>h. h_id h = hotelId)
                           (\<lambda>h. h\<lparr>h_reviews := h_reviews h @ [newId]\<rparr>) (hotels d)"
  shows "ratingConsistent fl (recalculateHotelRating fl d2 hotelId)"
proof (rule recalculateHotelRating_consistent)
  show "distinct (map h_id (hotels d2))"
    using ids by (simp add: hs map_updateFirst_erase)
next
  fix h assume h: "h \<in> set (hotels d2)" "h_id h \<noteq> hotelId"
  then have old: "h \<in> set (hotels d)"
    unfolding hs by (rule set_updateFirst_other) simp
  have "populate (h_reviews h) (reviews d @ [r]) = populate (h_reviews h) (reviews d)"
  proof (rule populate_cong)
    fix i assume "i \<in> set (h_reviews h)"
    with fresh [OF old] have "i \<noteq> newId" by auto
    then show "find (\<lambda>r. r_id r = i) (reviews d @ [r]) = find (\<lambda>r. r_id r = i) (reviews d)"
      using r by (simp add: find_snoc_other)
  qed
  moreover from cons old have "consistentHotel fl (reviews d) h"
    by (simp add: ratingConsistent_def list_all_iff)
  ultimately show "consistentHotel fl (reviews d2) h"
    by (simp add: rs consistentHotel_def)
qed

lemma updated_review_consistent:
  assumes ids: "distinct (map h_id (hotels d))"
    and cons: "ratingConsistent fl d"
    and listed: "\<And>h. h \<in> set (hotels d) \<Longrightarrow> reviewId \<in> set (h_reviews h)
                   \<Longrightarrow> h_id h = hotelId"
    and rs: "reviews d1 = updateFirst (\<lambda>r. r_id r = reviewId) g (reviews d)"
    and g: "\<And>r. r_id (g r) = r_id r"
    and hs: "hotels d1 = hotels d"
  shows "ratingConsistent fl (recalculateHotelRating fl d1 hotelId)"
proof (rule recalculateHotelRating_consistent)
  show "distinct (map h_id (hotels d1))" using ids by (simp add: hs)
next
  fix h assume h: "h \<in> set (hotels d1)" "h_id h \<noteq> hotelId"
  then have old: "h \<in> set (hotels d)" by (simp add: hs)
  with listed h have out: "reviewId \<notin> set (h_reviews h)" by blast
  have "populate (h_reviews h) (reviews d1) = populate (h_reviews h) (reviews d)"
    unfolding rs
  proof (rule populate_cong)
    fix i assume "i \<in> set (h_reviews h)"
    with out have "i \<noteq> reviewId" by auto
    then show "find (\<lambda>r. r_id r = i) (updateFirst (\<lambda>r. r_id r = reviewId) g (reviews d))
        = find (\<lambda>r. r_id r = i) (reviews d)"
      using g by (simp add: find_review_updateFirst_other)
  qed
  moreover from cons old have "consistentHotel fl (reviews d) h"
    by (simp add: ratingConsistent_def list_all_iff)
  ultimately show "consistentHotel fl (reviews d1) h"
    by (simp add: consistentHotel_def)
qed

lemma deleted_review_consistent:
  assumes ids: "distinct (map h_id (hotels d))"
    and cons: "ratingConsistent fl d"
    and listed: "\<And>h. h \<in> set (hotels d) \<Longrightarrow> reviewId \<in> set (h_reviews h)
                   \<Longrightarrow> h_id h = hotelId"
    and rs: "reviews d2 = deleteFirst (\<lambda>r. r_id r = reviewId) (reviews d)"
    and hs: "hotels d2 = updateFirst (\<lambda>h. h_id h = hotelId)
                           (\<lambda>h. h\<lparr>h_reviews := removeAll reviewId (h_reviews h)\<rparr>) (hotels d)"
  shows "ratingConsistent fl (recalculateHotelRating fl d2 hotelId)"
proof (rule recalculateHotelRating_consistent)
  show "distinct (map h_id (hotels d2))"
    using ids by (simp add: hs map_updateFirst_erase)
next
  fix h assume h: "h \<in> set (hotels d2)" "h_id h \<noteq> hotelId"
  then have old: "h \<in> set (hotels d)"
    unfolding hs by (rule set_updateFirst_other) simp
  with listed h have out: "reviewId \<notin> set (h_reviews h)" by blast
  have "populate (h_reviews h) (reviews d2) = populate (h_reviews h) (reviews d)"
    unfolding rs
  proof (rule populate_cong)
    fix i assume "i \<in> set (h_reviews h)"
    with out have "i \<noteq> reviewId" by auto
    then show "find (\<lambda>r. r_id r = i) (deleteFirst (\<lambda>r. r_id r = reviewId) (reviews d))
        = find (\<lambda>r. r_id r = i) (reviews d)"
      by (simp add: find_review_deleteFirst_other)
  qed
  moreover from cons old have "consistentHotel fl (reviews d) h"
    by (simp add: ratingConsistent_def list_all_iff)
  ultimately show "consistentHotel fl (reviews d2) h"
    by (simp add: consistentHotel_def)
qed

lemma review_post_consistent:
  assumes ids: "distinct (map h_id (hotels d))"
    and cons: "ratingConsistent fl d"
    and fresh: "\<And>h. h \<in> set (hotels d) \<Longrightarrow> newId \<notin> set (h_reviews h)"
  shows "ratingConsistent fl (snd (review_post fl d session hotelId body_text newRating newId))"
  using cons
  by (auto simp add: review_post_def Let_def
      intro!: created_review_consistent [OF ids cons fresh]
      split: option.splits)

lemma review_put_consistent:
  assumes ids: "distinct (map h_id (hotels d))"
    and cons: "ratingConsistent fl d"
    and listed: "\<And>h. h \<in> set (hotels d) \<Longrightarrow> reviewId \<in> set (h_reviews h)
                   \<Longrightarrow> h_id h = hotelId"
  shows "ratingConsistent fl
           (snd (review_put fl d session hotelId reviewId body_text newRating))"
  using cons
  by (auto simp add: review_put_def Let_def
      intro!: updated_review_consistent [OF ids cons listed]
      split: option.splits)

lemma review_delete_consistent:
  assumes ids: "distinct (map h_id (hotels d))"
    and cons: "ratingConsistent fl d"
    and listed: "\<And>h. h \<in> set (hotels d) \<Longrightarrow> reviewId \<in> set (h_reviews h)
                   \<Longrightarrow> h_id h = hotelId"
  shows "ratingConsistent fl (snd (review_delete fl d session hotelId reviewId))"
  using cons
  by (auto simp add: review_delete_def Let_def
      intro!: deleted_review_consistent [OF ids cons listed]
      split: option.splits)

lemma rounded_sum_range:
  fixes fl :: "rat \<Rightarrow> rat"
  assumes mono: "\<And>x y. x \<le> y \<Longrightarrow> fl x \<le> fl y"
    and whole: "\<And>k. k \<le> N \<Longrightarrow> fl (of_nat k) = of_nat k"
  shows "list_all (\<lambda>x. 1 \<le> x \<and> x \<le> 5) xs \<Longrightarrow> of_nat m \<le> a \<Longrightarrow> a \<le> 5 * of_nat m
     \<Longrightarrow> 5 * (m + length xs) \<le> N
     \<Longrightarrow> of_nat (m + length xs) \<le> foldl (\<lambda>s x. fl (s + x)) a xs
         \<and> foldl (\<lambda>s x. fl (s + x)) a xs \<le> 5 * of_nat (m + length xs)"
proof (induction xs arbitrary: a m)
  case Nil
  then show ?case by simp
next
  case (Cons x xs)
  from Cons.prems have x: "1 \<le> x" "x \<le> 5" and rest: "list_all (\<lambda>x. 1 \<le> x \<and> x \<le> 5) xs"
    by simp_all
  from Cons.prems have n1: "Suc m \<le> N" and n5: "5 * Suc m \<le> N" by simp_all
  have "of_nat (Suc m) \<le> a + x" using Cons.prems(2) x by simp
  from mono [OF this] whole [OF n1] have lo: "of_nat (Suc m) \<le> fl (a + x)" by simp
  have "a + x \<le> of_nat (5 * Suc m)" using Cons.prems(3) x by simp
  from mono [OF this] whole [OF n5] have hi: "fl (a + x) \<le> 5 * of_nat (Suc m)" by simp
  from Cons.prems(4) have "5 * (Suc m + length xs) \<le> N" by simp
  from Cons.IH [OF rest lo hi this] show ?case by simp
qed

lemma spec_average_range:
  fixes fl :: "rat \<Rightarrow> rat"
  assumes mono: "\<And>x y. x \<le> y \<Longrightarrow> fl x \<le> fl y"
    and whole: "\<And>k. k \<le> N \<Longrightarrow> fl (of_nat k) = of_nat k"
    and range: "list_all (\<lambda>x. 1 \<le> x \<and> x \<le> 5) xs"
    and size: "5 * length xs \<le> N"
  shows "0 \<le> spec_average fl xs \<and> spec_average fl xs \<le> 5"
proof (cases "xs = []")
  case True
  then show ?thesis by (simp add: spec_average_def)
next
  case False
  let ?s = "foldl (\<lambda>s x. fl (s + x)) 0 xs"
  let ?n = "of_nat (length xs) :: rat"
  from False have pos: "0 < ?n" by simp
  from False size have n1: "1 \<le> N" and n5: "5 \<le> N"
    by (cases xs; simp)+
  from rounded_sum_range [OF mono whole range, where m = 0 and a = 0] size
  have "?n \<le> ?s \<and> ?s \<le> 5 * ?n" by simp
  then have "?n \<le> ?s" and "?s \<le> 5 * ?n" by simp_all
  with pos have q: "1 \<le> ?s / ?n" "?s / ?n \<le> 5"
    by (simp_all add: pos_le_divide_eq pos_divide_le_eq)
  from mono [OF q(1)] whole [OF n1] have "1 \<le> fl (?s / ?n)" by simp
  moreover from mono [OF q(2)] whole [OF n5] have "fl (?s / ?n) \<le> 5" by simp
  ultimately show ?thesis using False by (simp add: spec_average_def)
qed

text \<open>
  C9, amended. The handlers store the rating as submitted, without a test of its range:
  a created review is appended with the submitted rating and its id is appended to the
  hotel's list, an updated review gets the submitted rating, a deleted review is
  removed from the collection and its id from the addressed hotel's list.
  In a database with distinct hotel ids in which every hotel's averageRating is the
  rating rule's value for its current reviews (their sum divided by their count, 0 with
  none, in the program's arithmetic), this still holds for every hotel after a review is
  created under a fresh id, and after a review is updated or deleted through the address
  of the hotel that lists it, once the recalculation that the handler starts has run.
  In such a database, when the rounding is monotone and exact on the whole numbers up to
  five times the number of a hotel's reviews, a hotel all of whose current ratings lie
  in 1..5 has its averageRating in 0..5.
\<close>

theorem review_handlers_preserve:
  assumes ids: "distinct (map h_id (hotels d))"
    and cons: "ratingConsistent fl d"
  shows
    "((\<forall>h \<in> set (hotels d). newId \<notin> set (h_reviews h)) \<longrightarrow>
        ratingConsistent fl
          (snd (review_post fl d session hotelId body_text newRating newId)))
     \<and> (fst (review_post fl d session hotelId body_text newRating newId) = RedirectHotel hotelId
          \<longrightarrow> (\<exists>author.
                reviews (snd (review_post fl d session hotelId body_text newRating newId))
                  = reviews d @ [\<lparr>r_id = newId, text_of = body_text, rating = newRating,
                                  r_author = author\<rparr>])
              \<and> map h_reviews
                  (hotels (snd (review_post fl d session hotelId body_text newRating newId)))
                = map h_reviews
                    (updateFirst (\<lambda>h. h_id h = hotelId)
                       (\<lambda>h. h\<lparr>h_reviews := h_reviews h @ [newId]\<rparr>) (hotels d)))
     \<and> ((\<forall>h \<in> set (hotels d). reviewId \<in> set (h_reviews h) \<longrightarrow> h_id h = hotelId) \<longrightarrow>
          ratingConsistent fl
            (snd (review_put fl d session hotelId reviewId body_text newRating))
          \<and> ratingConsistent fl (snd (review_delete fl d session hotelId reviewId)))
     \<and> (fst (review_put fl d session hotelId reviewId body_text newRating)
            = RedirectHotel hotelId \<longrightarrow>
          find (\<lambda>r. r_id r = reviewId)
             (reviews (snd (review_put fl d session hotelId reviewId body_text newRating)))
            = map_option (\<lambda>r. r\<lparr>text_of := body_text, rating := newRating\<rparr>)
                (find (\<lambda>r. r_id r = reviewId) (reviews d)))
     \<and> (fst (review_delete fl d session hotelId reviewId) = RedirectHotel hotelId \<longrightarrow>
          reviews (snd (review_delete fl d session hotelId reviewId))
            = deleteFirst (\<lambda>r. r_id r = reviewId) (reviews d)
          \<and> map h_reviews (hotels (snd (review_delete fl d session hotelId reviewId)))
            = map h_reviews
                (updateFirst (\<lambda>h. h_id h = hotelId)
                   (\<lambda>h. h\<lparr>h_reviews := removeAll reviewId (h_reviews h)\<rparr>) (hotels d)))
     \<and> ((\<forall>x y. x \<le> y \<longrightarrow> fl x \<le> fl y) \<and> (\<forall>k \<le> N. fl (of_nat k) = of_nat k) \<longrightarrow>
          (\<forall>h \<in> set (hotels d).
             ratingsInRange (reviews d) h
             \<and> 5 * length (populate (h_reviews h) (reviews d)) \<le> N \<longrightarrow>
             0 \<le> averageRating h \<and> averageRating h \<le> 5))"
proof -
  have post: "(\<forall>h \<in> set (hotels d). newId \<notin> set (h_reviews h)) \<longrightarrow>
      ratingConsistent fl (snd (review_post fl d session hotelId body_text newRating newId))"
    using review_post_consistent [OF ids cons] by blast
  have stored: "fst (review_post fl d session hotelId body_text newRating newId)
        = RedirectHotel hotelId
      \<longrightarrow> (\<exists>author.
            reviews (snd (review_post fl d session hotelId body_text newRating newId))
              = reviews d @ [\<lparr>r_id = newId, text_of = body_text, rating = newRating,
                              r_author = author\<rparr>])
          \<and> map h_reviews
              (hotels (snd (review_post fl d session hotelId body_text newRating newId)))
            = map h_reviews
                (updateFirst (\<lambda>h. h_id h = hotelId)
                   (\<lambda>h. h\<lparr>h_reviews := h_reviews h @ [newId]\<rparr>) (hotels d))"
    by (auto simp add: review_post_def Let_def recalculateHotelRating_reviews
        recalculateHotelRating_listed split: option.splits if_splits)
  have putdel: "(\<forall>h \<in> set (hotels d). reviewId \<in> set (h_reviews h) \<longrightarrow> h_id h = hotelId) \<longrightarrow>
      ratingConsistent fl (snd (review_put fl d session hotelId reviewId body_text newRating))
      \<and> ratingConsistent fl (snd (review_delete fl d session hotelId reviewId))"
    using review_put_consistent [OF ids cons] review_delete_consistent [OF ids cons]
    by blast
  have changed: "fst (review_put fl d session hotelId reviewId body_text newRating)
        = RedirectHotel hotelId \<longrightarrow>
      find (\<lambda>r. r_id r = reviewId)
         (reviews (snd (review_put fl d session hotelId reviewId body_text newRating)))
        = map_option (\<lambda>r. r\<lparr>text_of := body_text, rating := newRating\<rparr>)
            (find (\<lambda>r. r_id r = reviewId) (reviews d))"
    by (auto simp add: review_put_def Let_def recalculateHotelRating_reviews
        find_updateFirst_same split: option.splits if_splits)
  have removed: "fst (review_delete fl d session hotelId reviewId) = RedirectHotel hotelId \<longrightarrow>
      reviews (snd (review_delete fl d session hotelId reviewId))
        = deleteFirst (\<lambda>r. r_id r = reviewId) (reviews d)
      \<and> map h_reviews (hotels (snd (review_delete fl d session hotelId reviewId)))
        = map h_reviews
            (updateFirst (\<lambda>h. h_id h = hotelId)
               (\<lambda>h. h\<lparr>h_reviews := removeAll reviewId (h_reviews h)\<rparr>) (hotels d))"
    by (auto simp add: review_delete_def Let_def recalculateHotelRating_reviews
        recalculateHotelRating_listed split: option.splits if_splits)
  have range: "(\<forall>x y. x \<le> y \<longrightarrow> fl x \<le> fl y) \<and> (\<forall>k \<le> N. fl (of_nat k) = of_nat k) \<longrightarrow>
      (\<forall>h \<in> set (hotels d).
         ratingsInRange (reviews d) h
         \<and> 5 * length (populate (h_reviews h) (reviews d)) \<le> N \<longrightarrow>
         0 \<le> averageRating h \<and> averageRating h \<le> 5)"
  proof (intro impI ballI)
    fix h
    assume fl: "(\<forall>x y. x \<le> y \<longrightarrow> fl x \<le> fl y) \<and> (\<forall>k \<le> N. fl (of_nat k) = of_nat k)"
      and h: "h \<in> set (hotels d)"
      and r: "ratingsInRange (reviews d) h
              \<and> 5 * length (populate (h_reviews h) (reviews d)) \<le> N"
    let ?xs = "map rating (populate (h_reviews h) (reviews d))"
    from cons h have avg: "averageRating h = spec_average fl ?xs"
      by (simp add: ratingConsistent_def list_all_iff consistentHotel_def)
    from r have "list_all (\<lambda>x. 1 \<le> x \<and> x \<le> 5) ?xs" and "5 * length ?xs \<le> N"
      by (simp_all add: ratingsInRange_def list_all_iff)
    with fl spec_average_range [of fl N ?xs] show "0 \<le> averageRating h \<and> averageRating h \<le> 5"
      unfolding avg by blast
  qed
  from post stored putdel changed removed range show ?thesis by (intro conjI)
qed

theorem review_handlers_preserve_witness:
  "map averageRating
     (hotels (snd (review_post exact (snd (review_post exact dbStays (Some 1) 7 ''fine'' 5 200))
                     (Some 3) 7 ''fair'' 3 201)))
     = [4]
   \<and> ratingConsistent exact
       (snd (review_post exact (snd (review_post exact dbStays (Some 1) 7 ''fine'' 5 200))
               (Some 3) 7 ''fair'' 3 201))"
  using review_handlers_preserve
    [where d = "snd (review_post exact dbStays (Some 1) 7 ''fine'' 5 200)"
      and fl = exact and hotelId = 7 and session = "Some 3" and body_text = "''fair''"
      and newRating = 3 and newId = 201 and reviewId = 200 and N = 10]
  by (simp add: review_post_def recalculateHotelRating_def populate_simps dbStays_def
      user0_def user3_def hotel0_def booking0_def Let_def ratingConsistent_def
      consistentHotel_def spec_average_def exact_def)

text \<open>
  The examples: a 5 and a 3 give 4 (above); without the 5 the average is 3; with no
  review left it is 0.
\<close>

lemma rating_examples:
  "map averageRating
     (hotels (snd (review_delete exact
        (snd (review_post exact (snd (review_post exact dbStays (Some 1) 7 ''fine'' 5 200))
                (Some 3) 7 ''fair'' 3 201))
        (Some 1) 7 200)))
     = [3]
   \<and> map averageRating
     (hotels (snd (review_delete exact
        (snd (review_post exact dbStays (Some 1) 7 ''fine'' 5 200)) (Some 1) 7 200)))
     = [0]"
  by (simp add: review_post_def review_delete_def recalculateHotelRating_def populate_simps
      dbStays_def user0_def user3_def hotel0_def booking0_def Let_def exact_def)

text \<open>
  C9, as stated: every stored rating lies in 1..5 and every average in 0..5, and the
  handlers preserve this. It fails: a review submitted with rating 10 is stored, and the
  hotel's average becomes 10.
\<close>

theorem rating_range_counterexample:
  "ratingInvariant exact dbStays
   \<and> fst (review_post exact dbStays (Some 1) 7 ''fine'' 10 200) = RedirectHotel 7
   \<and> map rating (reviews (snd (review_post exact dbStays (Some 1) 7 ''fine'' 10 200))) = [10]
   \<and> map averageRating (hotels (snd (review_post exact dbStays (Some 1) 7 ''fine'' 10 200)))
       = [10]
   \<and> \<not> ratingInvariant exact (snd (review_post exact dbStays (Some 1) 7 ''fine'' 10 200))"
  by (simp add: ratingInvariant_def ratingConsistent_def consistentHotel_def spec_average_def
      review_post_def recalculateHotelRating_def populate_simps dbStays_def user0_def
      user3_def hotel0_def booking0_def Let_def exact_def)

text \<open>
  A review updated through the address of another hotel: the hotel that lists it keeps
  its old average.
\<close>

lemma review_put_other_hotel_stale:
  "ratingInvariant exact dbTwoHotels
   \<and> fst (review_put exact dbTwoHotels (Some 1) 8 200 ''poor'' 1) = RedirectHotel 8
   \<and> map rating (reviews (snd (review_put exact dbTwoHotels (Some 1) 8 200 ''poor'' 1))) = [1]
   \<and> map averageRating (hotels (snd (review_put exact dbTwoHotels (Some 1) 8 200 ''poor'' 1)))
       = [5, 0]
   \<and> \<not> ratingConsistent exact (snd (review_put exact dbTwoHotels (Some 1) 8 200 ''poor'' 1))"
  by (simp add: ratingInvariant_def ratingConsistent_def consistentHotel_def spec_average_def
      review_put_def recalculateHotelRating_def populate_simps dbTwoHotels_def user0_def
      hotel0_def hotel8_def review200_def Let_def exact_def)

end
